theory Spec2Isabelle
  imports Main
begin

section \<open>Data model\<close>

text \<open>
  The agent of \<^verbatim>\<open>src/agent.py\<close> keeps its state in module globals
  (\<^verbatim>\<open>src.utils.globals\<close>), in the Transfer table of the database and in the
  file \<^verbatim>\<open>final_graph.graphml\<close>. All of it is gathered in one record that every
  operation takes and returns. An exception is a value: an operation that raises returns
  \<open>Inl\<close> of the exception together with the state it leaves behind.
\<close>

type_synonym addr = string
type_synonym edge = "addr \<times> addr"

datatype error = Exception string

record transfer =
  row_id :: nat
  sender :: addr
  receiver :: addr
  amount :: int
  processed :: bool

record event =
  ev_sender :: addr
  ev_receiver :: addr
  ev_amount :: int
  block_number :: int

text \<open>The directed, weighted global graph \<^verbatim>\<open>globals.G1\<close> and its subgraphs.\<close>

record digraph =
  g_nodes :: "addr list"
  g_edges :: "(edge \<times> int) list"

text \<open>A partitioned graph: one entry per community, with its nodes and its edges.\<close>

record community =
  c_nodes :: "addr list"
  c_edges :: "edge list"

type_synonym cgraph = "community list"
type_synonym partition = "(addr \<times> nat) list"

text \<open>
  Attribute values of the final graph, by the Python shape the serialisation loop of
  \<^verbatim>\<open>process_transactions\<close> tells apart: a class object (\<^verbatim>\<open>isinstance(value, type)\<close>),
  a list (\<^verbatim>\<open>isinstance(value, list)\<close>), and everything else. A float is kept as a
  mantissa and a binary exponent; no arithmetic is done on it.
\<close>

datatype pyval =
    PyNone
  | PyBool bool
  | PyInt int
  | PyFloat int int
  | PyStr string
  | PyType string
  | PyList "pyval list"
  | PyDict "(pyval \<times> pyval) list"
  | PyObject string

type_synonym attrs = "(string \<times> pyval) list"

record fgraph =
  f_nodes :: "(addr \<times> attrs) list"
  f_edges :: "(addr \<times> addr \<times> attrs) list"

record finding =
  cluster_id :: int
  members :: "addr list"

text \<open>What \<^verbatim>\<open>analyze_communities(updated_subgraph) or []\<close> evaluates to.\<close>

datatype analyzed = EmptyList | Analyzed fgraph

datatype graphml_payload = DiGraphML digraph | CommunityGraphML cgraph

record state =
  transaction_counter :: int
  is_initial_batch :: bool
  global_added_edges :: "edge list"
  G1 :: digraph
  G2 :: cgraph
  transfers_table :: "transfer list"
  final_graph_file :: "fgraph option"

text \<open>
  The functions that \<^verbatim>\<open>agent.py\<close> imports from modules outside the two source files,
  the constant \<^verbatim>\<open>N\<close> and the faults of the database session are parameters. Each
  call that can raise returns a sum, and a call that raises is taken to leave the state
  as it found it. \<open>insert_fault\<close>, \<open>commit_fault\<close>, \<open>execute_fault\<close> and
  \<open>build_fault\<close> say whether adding the row, committing a table, running the select
  and updating the global graph raise; \<open>expired\<close> is the retention window of the
  Transfer table.
\<close>

record env =
  N :: int
  apply_initial_heuristics :: "event \<Rightarrow> error + bool"
  insert_fault :: "event \<Rightarrow> transfer list \<Rightarrow> error option"
  commit_fault :: "transfer list \<Rightarrow> error option"
  execute_fault :: "transfer list \<Rightarrow> error option"
  build_fault :: "transfer list \<Rightarrow> digraph \<Rightarrow> error option"
  adjust_edge_weights_and_variances :: "transfer list \<Rightarrow> digraph \<Rightarrow> error + digraph"
  convert_decimal_to_float :: "digraph \<Rightarrow> error + digraph"
  write_graphml :: "graphml_payload \<Rightarrow> string \<Rightarrow> error option"
  run_algorithm :: "digraph \<Rightarrow> error + partition"
  process_partitions :: "partition \<Rightarrow> digraph \<Rightarrow> error + cgraph"
  analyze_communities :: "cgraph \<Rightarrow> error + fgraph option"
  load_graph :: "fgraph option \<Rightarrow> error + fgraph"
  merge_final_graphs :: "analyzed \<Rightarrow> fgraph \<Rightarrow> error + fgraph"
  json_dumps :: "pyval \<Rightarrow> error + string"
  save_graph :: "fgraph \<Rightarrow> fgraph option \<Rightarrow> error + fgraph option"
  write_graph_to_database :: "fgraph \<Rightarrow> error + finding list"
  expired :: "transfer list \<Rightarrow> transfer \<Rightarrow> bool"
  shed_transfers_fault :: "transfer list \<Rightarrow> error option"
  shed_contract_fault :: "error option"

section \<open>The persistence store\<close>

fun next_row_id :: "transfer list \<Rightarrow> nat" where
  "next_row_id [] = 1"
| "next_row_id (t # ts) = max (Suc (row_id t)) (next_row_id ts)"

text \<open>
  Modelled from the spec: \<^verbatim>\<open>add_transaction_to_db\<close> of \<^verbatim>\<open>src/database/db_utils.py\<close>
  is not among the source files. Section 4.1: insert(row) appends the row; section 3: a
  Transfer is created on admission, unprocessed.
\<close>

definition add_transaction_to_db :: "env \<Rightarrow> event \<Rightarrow> transfer list \<Rightarrow> error + transfer list" where
  "add_transaction_to_db env ev tbl =
     (case insert_fault env ev tbl of
        Some e \<Rightarrow> Inl e
      | None \<Rightarrow> Inr (tbl @ [\<lparr>row_id = next_row_id tbl, sender = ev_sender ev,
                              receiver = ev_receiver ev, amount = ev_amount ev,
                              processed = False\<rparr>]))"

text \<open>
  Lines 60 to 67 of \<^verbatim>\<open>agent.py\<close>: the row is added and committed inside
  \<^verbatim>\<open>try\<close>; \<^verbatim>\<open>except Exception\<close> prints the exception and rolls the session
  back, so the table is as before. The print is not modelled, and the rollback itself is
  taken not to raise.
\<close>

definition insert_row :: "env \<Rightarrow> event \<Rightarrow> state \<Rightarrow> state" where
  "insert_row env ev s =
     (case add_transaction_to_db env ev (transfers_table s) of
        Inl e \<Rightarrow> s
      | Inr tbl \<Rightarrow>
          (case commit_fault env tbl of
             Some e \<Rightarrow> s
           | None \<Rightarrow> s\<lparr>transfers_table := tbl\<rparr>))"

text \<open>
  Modelled from the spec: \<^verbatim>\<open>update_transaction_counter\<close> of \<^verbatim>\<open>src/utils/utils.py\<close>
  is not among the source files. Section 4.2: the counter is incremented by one per
  admitted event.
\<close>

definition update_transaction_counter :: "state \<Rightarrow> state" where
  "update_transaction_counter s = s\<lparr>transaction_counter := transaction_counter s + 1\<rparr>"

text \<open>
  Modelled from the spec: \<^verbatim>\<open>shed_oldest_Transfers\<close> of \<^verbatim>\<open>src/database/db_utils.py\<close>
  is not among the source files. Section 4.1: evictOlderThan deletes the rows that are both
  processed and outside the window.
\<close>

definition shed_oldest_Transfers :: "env \<Rightarrow> state \<Rightarrow> error + state" where
  "shed_oldest_Transfers env s =
     (case shed_transfers_fault env (transfers_table s) of
        Some e \<Rightarrow> Inl e
      | None \<Rightarrow>
          Inr (s\<lparr>transfers_table :=
                 filter (\<lambda>t. \<not> (processed t \<and> expired env (transfers_table s) t))
                   (transfers_table s)\<rparr>))"

definition unprocessed :: "transfer list \<Rightarrow> transfer list" where
  "unprocessed tbl = filter (\<lambda>t. \<not> processed t) tbl"

text \<open>
  Lines 159 and 160: every row object returned by the select gets
  \<^verbatim>\<open>processed = True\<close>. A row object is the table row with its primary key.
\<close>

definition mark_processed :: "transfer list \<Rightarrow> transfer list \<Rightarrow> transfer list" where
  "mark_processed transfers tbl =
     map (\<lambda>t. if row_id t \<in> set (map row_id transfers) then t\<lparr>processed := True\<rparr> else t) tbl"

section \<open>The global graph\<close>

fun add_edge_weight :: "edge \<Rightarrow> int \<Rightarrow> (edge \<times> int) list \<Rightarrow> (edge \<times> int) list" where
  "add_edge_weight e a [] = [(e, a)]"
| "add_edge_weight e a ((e', w) # es) =
     (if e = e' then (e', w + a) # es else (e', w) # add_edge_weight e a es)"

definition add_node :: "addr \<Rightarrow> addr list \<Rightarrow> addr list" where
  "add_node n ns = (if n \<in> set ns then ns else ns @ [n])"

definition add_transfer :: "digraph \<Rightarrow> transfer \<Rightarrow> digraph" where
  "add_transfer g t =
     \<lparr>g_nodes = add_node (receiver t) (add_node (sender t) (g_nodes g)),
      g_edges = add_edge_weight (sender t, receiver t) (amount t) (g_edges g)\<rparr>"

definition touched_edges :: "transfer list \<Rightarrow> edge list" where
  "touched_edges ts = map (\<lambda>t. (sender t, receiver t)) ts"

text \<open>
  Modelled from the spec: \<^verbatim>\<open>add_transactions_to_graph\<close> of
  \<^verbatim>\<open>src/graph/graph_controller.py\<close> is not among the source files. Section 4.3: for
  each transfer of the batch, in order, the directed edge (sender, receiver) is added or
  updated with weight += amount, nodes being created on first reference; the edges touched
  this batch are returned. The result is the updated \<^verbatim>\<open>globals.G1\<close> with those edges.
\<close>

definition add_transactions_to_graph :: "env \<Rightarrow> transfer list \<Rightarrow> digraph \<Rightarrow> error + digraph \<times> edge list" where
  "add_transactions_to_graph env ts g =
     (case build_fault env ts g of
        Some e \<Rightarrow> Inl e
      | None \<Rightarrow> Inr (foldl add_transfer g ts, touched_edges ts))"

text \<open>
  \<^verbatim>\<open>nx.DiGraph(G.edge_subgraph(edges))\<close>: the edges of \<open>G\<close> that are in \<open>edges\<close>, and
  the nodes of \<open>G\<close> that are an end of an edge in \<open>edges\<close>.
\<close>

definition edge_subgraph :: "digraph \<Rightarrow> edge list \<Rightarrow> digraph" where
  "edge_subgraph g es =
     \<lparr>g_nodes = filter (\<lambda>n. n \<in> set (map fst es @ map snd es)) (g_nodes g),
      g_edges = filter (\<lambda>(e, w). e \<in> set es) (g_edges g)\<rparr>"

section \<open>Serialising the attributes of the final graph\<close>

text \<open>\<^verbatim>\<open>str(value)\<close> of a class object.\<close>

definition py_str_type :: "string \<Rightarrow> string" where
  "py_str_type n = ''<class '' @ [CHR 0x27] @ n @ [CHR 0x27] @ ''>''"

text \<open>
  The body of the loops at lines 143 to 146 and 150 to 153, for one value: a class
  object becomes its \<^verbatim>\<open>str\<close>, a list its \<^verbatim>\<open>json.dumps\<close> (which raises on a list it
  cannot encode), and a value of any other shape is left as it is.
\<close>

definition convert_value :: "env \<Rightarrow> pyval \<Rightarrow> error + pyval" where
  "convert_value env v =
     (case v of
        PyType n \<Rightarrow> Inr (PyStr (py_str_type n))
      | PyList xs \<Rightarrow>
          (case json_dumps env (PyList xs) of
             Inl e \<Rightarrow> Inl e
           | Inr txt \<Rightarrow> Inr (PyStr txt))
      | _ \<Rightarrow> Inr v)"

text \<open>
  \<^verbatim>\<open>for key, value in list(data.items()): data[key] = ...\<close>: the keys of a dict are
  distinct and an assignment to a key keeps its place, so the loop rewrites the items one
  by one, and stops at the first value that raises.
\<close>

fun convert_items :: "env \<Rightarrow> attrs \<Rightarrow> error + attrs" where
  "convert_items env [] = Inr []"
| "convert_items env ((k, v) # kvs) =
     (case convert_value env v of
        Inl e \<Rightarrow> Inl e
      | Inr v' \<Rightarrow>
          (case convert_items env kvs of
             Inl e \<Rightarrow> Inl e
           | Inr kvs' \<Rightarrow> Inr ((k, v') # kvs')))"

fun convert_nodes :: "env \<Rightarrow> (addr \<times> attrs) list \<Rightarrow> error + (addr \<times> attrs) list" where
  "convert_nodes env [] = Inr []"
| "convert_nodes env ((n, d) # ns) =
     (case convert_items env d of
        Inl e \<Rightarrow> Inl e
      | Inr d' \<Rightarrow>
          (case convert_nodes env ns of
             Inl e \<Rightarrow> Inl e
           | Inr ns' \<Rightarrow> Inr ((n, d') # ns')))"

fun convert_edges :: "env \<Rightarrow> (addr \<times> addr \<times> attrs) list \<Rightarrow> error + (addr \<times> addr \<times> attrs) list" where
  "convert_edges env [] = Inr []"
| "convert_edges env ((u, v, d) # es) =
     (case convert_items env d of
        Inl e \<Rightarrow> Inl e
      | Inr d' \<Rightarrow>
          (case convert_edges env es of
             Inl e \<Rightarrow> Inl e
           | Inr es' \<Rightarrow> Inr ((u, v, d') # es')))"

text \<open>Lines 141 to 153: the node loop, then the edge loop.\<close>

definition serialize_attributes :: "env \<Rightarrow> fgraph \<Rightarrow> error + fgraph" where
  "serialize_attributes env g =
     (case convert_nodes env (f_nodes g) of
        Inl e \<Rightarrow> Inl e
      | Inr ns \<Rightarrow>
          (case convert_edges env (f_edges g) of
             Inl e \<Rightarrow> Inl e
           | Inr es \<Rightarrow> Inr \<lparr>f_nodes = ns, f_edges = es\<rparr>))"

text \<open>
  The values that the GraphML format stores: booleans, integers, floats and strings.
\<close>

fun is_scalar :: "pyval \<Rightarrow> bool" where
  "is_scalar (PyBool b) = True"
| "is_scalar (PyInt i) = True"
| "is_scalar (PyFloat m x) = True"
| "is_scalar (PyStr s) = True"
| "is_scalar v = False"

fun is_type_or_list :: "pyval \<Rightarrow> bool" where
  "is_type_or_list (PyType n) = True"
| "is_type_or_list (PyList xs) = True"
| "is_type_or_list v = False"





section \<open>The batch pipeline\<close>

text \<open>
  \<^verbatim>\<open>process_transactions\<close>, in four parts that run one after the other. The call
  \<^verbatim>\<open>debugpy.wait_for_client()\<close> at its head and the prints are debug instrumentation and
  are left out: a debugger is taken to be attached. The rows marked at lines 159 and 160
  reach the table only with the commit of line 161; a session that is closed by an
  exception commits nothing.

  Lines 90 to 113: the select of the unprocessed transfers, the update of the global
  graph, and the subgraph handed to the partitioner.
\<close>

definition batch_subgraph :: "env \<Rightarrow> state \<Rightarrow> (error \<times> state) + ((transfer list \<times> digraph) \<times> state)" where
  "batch_subgraph env s =
     (case execute_fault env (transfers_table s) of
        Some e \<Rightarrow> Inl (e, s)
      | None \<Rightarrow>
          (let transfers = unprocessed (transfers_table s) in
           (case add_transactions_to_graph env transfers (G1 s) of
              Inl e \<Rightarrow> Inl (e, s)
            | Inr (g, added_edges) \<Rightarrow>
                (let s1 = s\<lparr>G1 := g, global_added_edges := global_added_edges s @ added_edges\<rparr> in
                 (case adjust_edge_weights_and_variances env transfers (G1 s1) of
                    Inl e \<Rightarrow> Inl (e, s1)
                  | Inr g2 \<Rightarrow>
                      (let s2 = s1\<lparr>G1 := g2\<rparr> in
                       (case convert_decimal_to_float env (G1 s2) of
                          Inl e \<Rightarrow> Inl (e, s2)
                        | Inr g3 \<Rightarrow>
                            (let s3 = s2\<lparr>G1 := g3\<rparr> in
                             (case write_graphml env (DiGraphML (G1 s3))
                                     ''src/graph/graphs/initial_global_graph.graphml'' of
                                Some e \<Rightarrow> Inl (e, s3)
                              | None \<Rightarrow>
                                  Inr ((transfers,
                                        edge_subgraph (G1 s3) (global_added_edges s3)), s3))))))))))"

text \<open>\<^verbatim>\<open>x or []\<close>: a graph without nodes is falsy, and so is \<^verbatim>\<open>None\<close>.\<close>

definition or_empty_list :: "fgraph option \<Rightarrow> analyzed" where
  "or_empty_list r =
     (case r of
        None \<Rightarrow> EmptyList
      | Some g \<Rightarrow> (if f_nodes g = [] then EmptyList else Analyzed g))"

text \<open>
  Lines 115 to 130: partitioning and scoring. The call of \<^verbatim>\<open>merge_new_communities\<close>
  at lines 120 to 126 is commented out in the source, so \<^verbatim>\<open>globals.G2\<close> is only
  written to its snapshot file.
\<close>

definition score_communities :: "env \<Rightarrow> digraph \<Rightarrow> state \<Rightarrow> (error \<times> state) + (analyzed \<times> state)" where
  "score_communities env subgraph s =
     (case run_algorithm env subgraph of
        Inl e \<Rightarrow> Inl (e, s)
      | Inr subgraph_partitions \<Rightarrow>
          (case process_partitions env subgraph_partitions subgraph of
             Inl e \<Rightarrow> Inl (e, s)
           | Inr updated_subgraph \<Rightarrow>
               (case write_graphml env (CommunityGraphML updated_subgraph)
                       ''src/graph/graphs/updated_subgraph.graphml'' of
                  Some e \<Rightarrow> Inl (e, s)
                | None \<Rightarrow>
                    (case write_graphml env (CommunityGraphML (G2 s))
                            ''src/graph/graphs/merged_G2_graph.graphml'' of
                       Some e \<Rightarrow> Inl (e, s)
                     | None \<Rightarrow>
                         (case analyze_communities env updated_subgraph of
                            Inl e \<Rightarrow> Inl (e, s)
                          | Inr r \<Rightarrow> Inr (or_empty_list r, s))))))"

definition nx_Graph :: fgraph where
  "nx_Graph = \<lparr>f_nodes = [], f_edges = []\<rparr>"

text \<open>Lines 132 to 137: the graph that the merge of the final graphs starts from.\<close>

definition initial_final_graph :: "env \<Rightarrow> state \<Rightarrow> (error \<times> state) + (fgraph \<times> state)" where
  "initial_final_graph env s =
     (if \<not> is_initial_batch s then
        (case load_graph env (final_graph_file s) of
           Inl e \<Rightarrow> Inl (e, s)
         | Inr final_graph \<Rightarrow> Inr (final_graph, s))
      else Inr (nx_Graph, s\<lparr>is_initial_batch := False\<rparr>))"

text \<open>Lines 139 to 166: merge, serialise, save, write the findings, mark and commit.\<close>

definition persist :: "env \<Rightarrow> transfer list \<Rightarrow> analyzed \<Rightarrow> fgraph \<Rightarrow> state \<Rightarrow> (error \<times> state) + (finding list \<times> state)" where
  "persist env transfers analyzed_subgraph final_graph s =
     (case merge_final_graphs env analyzed_subgraph final_graph of
        Inl e \<Rightarrow> Inl (e, s)
      | Inr merged \<Rightarrow>
          (case serialize_attributes env merged of
             Inl e \<Rightarrow> Inl (e, s)
           | Inr final \<Rightarrow>
               (case save_graph env final (final_graph_file s) of
                  Inl e \<Rightarrow> Inl (e, s)
                | Inr file \<Rightarrow>
                    (let s1 = s\<lparr>final_graph_file := file\<rparr> in
                     (case write_graph_to_database env final of
                        Inl e \<Rightarrow> Inl (e, s1)
                      | Inr findings \<Rightarrow>
                          (let tbl = mark_processed transfers (transfers_table s1) in
                           (case commit_fault env tbl of
                              Some e \<Rightarrow> Inl (e, s1)
                            | None \<Rightarrow>
                                Inr (findings,
                                     s1\<lparr>transfers_table := tbl, global_added_edges := []\<rparr>))))))))"

definition process_transactions :: "env \<Rightarrow> state \<Rightarrow> (error \<times> state) + (finding list \<times> state)" where
  "process_transactions env s =
     (case batch_subgraph env s of
        Inl x \<Rightarrow> Inl x
      | Inr ((transfers, subgraph), s1) \<Rightarrow>
          (case score_communities env subgraph s1 of
             Inl x \<Rightarrow> Inl x
           | Inr (analyzed_subgraph, s2) \<Rightarrow>
               (case initial_final_graph env s2 of
                  Inl x \<Rightarrow> Inl x
                | Inr (final_graph, s3) \<Rightarrow>
                    persist env transfers analyzed_subgraph final_graph s3)))"

section \<open>Handling one event\<close>

text \<open>
  Lines 73 to 84: at the threshold the pipeline runs, then the two evictions, then the
  counter is reset. There is no \<^verbatim>\<open>try\<close> around any of them, so an exception of the
  pipeline or of an eviction leaves the function at once. Only the Transfer table is
  modelled, so the eviction of the contract transactions either raises or does nothing.
\<close>

definition flush :: "env \<Rightarrow> state \<Rightarrow> (error \<times> state) + (finding list \<times> state)" where
  "flush env s =
     (if transaction_counter s \<ge> N env then
        (case process_transactions env s of
           Inl x \<Rightarrow> Inl x
         | Inr (findings, s1) \<Rightarrow>
             (case shed_oldest_Transfers env s1 of
                Inl e \<Rightarrow> Inl (e, s1)
              | Inr s2 \<Rightarrow>
                  (case shed_contract_fault env of
                     Some e \<Rightarrow> Inl (e, s2)
                   | None \<Rightarrow> Inr (findings, s2\<lparr>transaction_counter := 0\<rparr>))))
      else Inr ([], s))"

text \<open>Lines 53 to 84.\<close>

definition handle_transaction_async :: "env \<Rightarrow> event \<Rightarrow> state \<Rightarrow> (error \<times> state) + (finding list \<times> state)" where
  "handle_transaction_async env transaction_event s =
     (case apply_initial_heuristics env transaction_event of
        Inl e \<Rightarrow> Inl (e, s)
      | Inr admitted \<Rightarrow>
          (if \<not> admitted then Inr ([], s)
           else flush env (update_transaction_counter (insert_row env transaction_event s))))"


section \<open>The merge of communities that the pipeline does not call\<close>

text \<open>
  Modelled from the spec: \<^verbatim>\<open>merge_new_communities\<close> of
  \<^verbatim>\<open>src/dynamic/dynamic_communities.py\<close> is not among the source files. Section 4.5:
  two communities are the same when their node overlap exceeds a fixed fraction (here the
  majority of the new community's nodes); matched communities are merged by union of nodes
  and edges; unmatched new communities are added as they are; the other communities are
  left untouched.
\<close>

definition overlap :: "community \<Rightarrow> community \<Rightarrow> nat" where
  "overlap c d = length (filter (\<lambda>n. n \<in> set (c_nodes d)) (c_nodes c))"

definition same_community :: "community \<Rightarrow> community \<Rightarrow> bool" where
  "same_community c d = (length (c_nodes c) < 2 * overlap c d)"

definition union_community :: "community \<Rightarrow> community \<Rightarrow> community" where
  "union_community c d =
     \<lparr>c_nodes = c_nodes d @ filter (\<lambda>n. n \<notin> set (c_nodes d)) (c_nodes c),
      c_edges = c_edges d @ filter (\<lambda>e. e \<notin> set (c_edges d)) (c_edges c)\<rparr>"

fun merge_community :: "community \<Rightarrow> cgraph \<Rightarrow> cgraph" where
  "merge_community c [] = [c]"
| "merge_community c (d # ds) =
     (if same_community c d then union_community c d # ds else d # merge_community c ds)"

definition merge_new_communities :: "cgraph \<Rightarrow> cgraph \<Rightarrow> cgraph" where
  "merge_new_communities updated_subgraph g2 = foldl (\<lambda>g c. merge_community c g) g2 updated_subgraph"

section \<open>The migration f04874bb37a6\<close>

text \<open>
  A schema is the list of its columns, each under its table and its name.
  \<^verbatim>\<open>op.alter_column\<close> changes the type of one column and raises when the column does not
  exist; \<^verbatim>\<open>existing_type\<close> and \<^verbatim>\<open>existing_nullable\<close> only describe the column as it
  is. The rows are not modelled. Whether the statements of one migration run in one
  transaction is decided by the \<^verbatim>\<open>env.py\<close> of Alembic and by the database, neither of
  which is among the source files.
\<close>

datatype sqltype = VARCHAR nat | Integer

record column =
  col_type :: sqltype
  nullable :: bool
  autoincrement :: bool

type_synonym schema = "((string \<times> string) \<times> column) list"

fun set_column_type :: "string \<times> string \<Rightarrow> sqltype \<Rightarrow> bool \<Rightarrow> schema \<Rightarrow> schema" where
  "set_column_type k ty au [] = []"
| "set_column_type k ty au ((k', c) # cs) =
     (if k = k' then (k', c\<lparr>col_type := ty, autoincrement := au\<rparr>) # cs
      else (k', c) # set_column_type k ty au cs)"

definition alter_column :: "string \<Rightarrow> string \<Rightarrow> sqltype \<Rightarrow> sqltype \<Rightarrow> bool \<Rightarrow> bool \<Rightarrow> schema \<Rightarrow> error + schema" where
  "alter_column table_name column_name existing_type new_type existing_nullable autoinc sch =
     (case map_of sch (table_name, column_name) of
        None \<Rightarrow> Inl (Exception ''no such column'')
      | Some c \<Rightarrow> Inr (set_column_type (table_name, column_name) new_type autoinc sch))"

definition upgrade :: "schema \<Rightarrow> error + schema" where
  "upgrade sch =
     (case alter_column ''eoas'' ''id'' (VARCHAR 36) Integer False True sch of
        Inl e \<Rightarrow> Inl e
      | Inr sch1 \<Rightarrow>
          alter_column ''suspicious_clusters'' ''id'' (VARCHAR 36) Integer False True sch1)"

definition downgrade :: "schema \<Rightarrow> error + schema" where
  "downgrade sch =
     (case alter_column ''suspicious_clusters'' ''id'' Integer (VARCHAR 36) False True sch of
        Inl e \<Rightarrow> Inl e
      | Inr sch1 \<Rightarrow>
          alter_column ''eoas'' ''id'' Integer (VARCHAR 36) False True sch1)"

section \<open>Example inputs\<close>

text \<open>
  An environment in which every call succeeds: the partitioner puts all nodes of the
  subgraph into one community, the analysis reports every community, the merge of the
  final graphs appends, and the final graph file holds the graph last saved. The JSON
  text of a list is abbreviated.
\<close>

definition example_env :: env where
  "example_env =
     \<lparr>N = 1,
      apply_initial_heuristics = (\<lambda>ev. Inr True),
      insert_fault = (\<lambda>ev tbl. None),
      commit_fault = (\<lambda>tbl. None),
      execute_fault = (\<lambda>tbl. None),
      build_fault = (\<lambda>ts g. None),
      adjust_edge_weights_and_variances = (\<lambda>ts g. Inr g),
      convert_decimal_to_float = (\<lambda>g. Inr g),
      write_graphml = (\<lambda>payload path. None),
      run_algorithm = (\<lambda>g. Inr (map (\<lambda>n. (n, 0)) (g_nodes g))),
      process_partitions =
        (\<lambda>p g. Inr [\<lparr>c_nodes = map fst p, c_edges = map fst (g_edges g)\<rparr>]),
      analyze_communities =
        (\<lambda>cg. Inr (Some \<lparr>f_nodes = map (\<lambda>n. (n, [(''tags'', PyList [PyStr ''fan-out''])]))
                                        (concat (map c_nodes cg)),
                          f_edges = []\<rparr>)),
      load_graph =
        (\<lambda>file. case file of None \<Rightarrow> Inl (Exception ''FileNotFoundError'') | Some g \<Rightarrow> Inr g),
      merge_final_graphs =
        (\<lambda>a g. case a of
                  EmptyList \<Rightarrow> Inr g
                | Analyzed h \<Rightarrow> Inr \<lparr>f_nodes = f_nodes g @ f_nodes h,
                                     f_edges = f_edges g @ f_edges h\<rparr>),
      json_dumps = (\<lambda>v. Inr ''[...]''),
      save_graph = (\<lambda>g file. Inr (Some g)),
      write_graph_to_database =
        (\<lambda>g. Inr [\<lparr>cluster_id = 1, members = map fst (f_nodes g)\<rparr>]),
      expired = (\<lambda>tbl t. False),
      shed_transfers_fault = (\<lambda>tbl. None),
      shed_contract_fault = None\<rparr>"

definition idle_state :: state where
  "idle_state =
     \<lparr>transaction_counter = 0, is_initial_batch = True, global_added_edges = [],
      G1 = \<lparr>g_nodes = [], g_edges = []\<rparr>, G2 = [], transfers_table = [],
      final_graph_file = None\<rparr>"

definition example_event :: event where
  "example_event = \<lparr>ev_sender = ''A'', ev_receiver = ''B'', ev_amount = 10, block_number = 7\<rparr>"

text \<open>The state at the threshold: one admitted transfer, stored and counted.\<close>

definition ready_state :: state where
  "ready_state =
     idle_state\<lparr>transaction_counter := 1,
                transfers_table := [\<lparr>row_id = 1, sender = ''A'', receiver = ''B'',
                                     amount = 10, processed = False\<rparr>]\<rparr>"

definition example_final_graph :: fgraph where
  "example_final_graph =
     \<lparr>f_nodes = [(''A'', [(''tags'', PyStr ''[...]'')]), (''B'', [(''tags'', PyStr ''[...]'')])],
      f_edges = []\<rparr>"

definition example_communities :: cgraph where
  "example_communities = [\<lparr>c_nodes = [''A'', ''B''], c_edges = [(''A'', ''B'')]\<rparr>]"

text \<open>The same environment with one call that raises.\<close>

definition env_findings_fail :: env where
  "env_findings_fail =
     example_env\<lparr>write_graph_to_database := (\<lambda>g. Inl (Exception ''OperationalError''))\<rparr>"

definition env_insert_fail :: env where
  "env_insert_fail =
     example_env\<lparr>N := 3, insert_fault := (\<lambda>ev tbl. Some (Exception ''IntegrityError''))\<rparr>"



text \<open>
  A schema before the migration, with the cluster reference of the EOA rows as a column
  of the type of the identifiers it refers to.
\<close>

definition example_schema :: schema where
  "example_schema =
     [((''eoas'', ''id''), \<lparr>col_type = VARCHAR 36, nullable = False, autoincrement = False\<rparr>),
      ((''eoas'', ''cluster_id''), \<lparr>col_type = VARCHAR 36, nullable = True, autoincrement = False\<rparr>),
      ((''suspicious_clusters'', ''id''), \<lparr>col_type = VARCHAR 36, nullable = False, autoincrement = False\<rparr>)]"

definition migrated_schema :: schema where
  "migrated_schema =
     [((''eoas'', ''id''), \<lparr>col_type = Integer, nullable = False, autoincrement = True\<rparr>),
      ((''eoas'', ''cluster_id''), \<lparr>col_type = VARCHAR 36, nullable = True, autoincrement = False\<rparr>),
      ((''suspicious_clusters'', ''id''), \<lparr>col_type = Integer, nullable = False, autoincrement = True\<rparr>)]"

definition built_graph :: digraph where
  "built_graph = \<lparr>g_nodes = [''A'', ''B''], g_edges = [((''A'', ''B''), 10)]\<rparr>"

definition example_findings :: "finding list" where
  "example_findings = [\<lparr>cluster_id = 1, members = [''A'', ''B'']\<rparr>]"


text \<open>
  The state that the example batch leaves when writing the findings raises, the state
  after the pipeline has run through, and the state after the whole flush.
\<close>

definition failed_state :: state where
  "failed_state =
     ready_state\<lparr>G1 := built_graph, global_added_edges := [(''A'', ''B'')],
                 is_initial_batch := False, final_graph_file := Some example_final_graph\<rparr>"

definition processed_state :: state where
  "processed_state =
     ready_state\<lparr>G1 := built_graph, is_initial_batch := False,
                 final_graph_file := Some example_final_graph,
                 transfers_table := [\<lparr>row_id = 1, sender = ''A'', receiver = ''B'',
                                      amount = 10, processed = True\<rparr>]\<rparr>"

definition flushed_state :: state where
  "flushed_state = processed_state\<lparr>transaction_counter := 0\<rparr>"





section \<open>Edges carried over from a batch that raised\<close>


section \<open>What each part of the pipeline leaves behind\<close>

lemma batch_subgraph_Inl:
  assumes "batch_subgraph env s = Inl (e, s')"
  shows "G2 s' = G2 s \<and> transaction_counter s' = transaction_counter s \<and>
         transfers_table s' = transfers_table s \<and> final_graph_file s' = final_graph_file s \<and>
         is_initial_batch s' = is_initial_batch s \<and>
         (global_added_edges s' = global_added_edges s \<or>
          global_added_edges s' =
            global_added_edges s @ touched_edges (unprocessed (transfers_table s)))"
  using assms
  by (auto simp: batch_subgraph_def add_transactions_to_graph_def Let_def
           split: option.splits sum.splits)

lemma batch_subgraph_Inr:
  assumes "batch_subgraph env s = Inr ((ts, sub), s')"
  shows "ts = unprocessed (transfers_table s) \<and>
         G2 s' = G2 s \<and> transaction_counter s' = transaction_counter s \<and>
         transfers_table s' = transfers_table s \<and> final_graph_file s' = final_graph_file s \<and>
         is_initial_batch s' = is_initial_batch s \<and>
         global_added_edges s' = global_added_edges s @ touched_edges ts \<and>
         sub = edge_subgraph (G1 s') (global_added_edges s')"
  using assms
  by (auto simp: batch_subgraph_def add_transactions_to_graph_def Let_def
           split: option.splits sum.splits)

lemma score_communities_Inl: "score_communities env sub s = Inl (e, s') \<Longrightarrow> s' = s"
  by (auto simp: score_communities_def split: option.splits sum.splits)

lemma score_communities_Inr: "score_communities env sub s = Inr (a, s') \<Longrightarrow> s' = s"
  by (auto simp: score_communities_def split: option.splits sum.splits)

lemma initial_final_graph_Inl:
  "initial_final_graph env s = Inl (e, s') \<Longrightarrow> s' = s \<and> \<not> is_initial_batch s"
  by (auto simp: initial_final_graph_def split: if_splits sum.splits)

lemma initial_final_graph_Inr:
  "initial_final_graph env s = Inr (g, s') \<Longrightarrow> s' = s\<lparr>is_initial_batch := False\<rparr>"
  by (auto simp: initial_final_graph_def split: if_splits sum.splits)

lemma persist_Inl:
  assumes "persist env ts a fg s = Inl (e, s')"
  shows "s' = s \<or> (\<exists>g file. save_graph env g (final_graph_file s) = Inr file \<and>
                      s' = s\<lparr>final_graph_file := file\<rparr>)"
  using assms
  by (auto simp: persist_def Let_def split: option.splits sum.splits)

lemma persist_Inr:
  assumes "persist env ts a fg s = Inr (fs, s')"
  shows "\<exists>g file. save_graph env g (final_graph_file s) = Inr file \<and>
           s' = s\<lparr>final_graph_file := file,
                  transfers_table := mark_processed ts (transfers_table s),
                  global_added_edges := []\<rparr>"
  using assms
  by (auto simp: persist_def Let_def split: option.splits sum.splits)

text \<open>The stages of a run of the pipeline that raises.\<close>

lemma process_transactions_Inl_cases:
  assumes "process_transactions env s = Inl (e, s')"
  shows "batch_subgraph env s = Inl (e, s') \<or>
         (\<exists>ts sub s1. batch_subgraph env s = Inr ((ts, sub), s1) \<and>
            (s' = s1 \<or> s' = s1\<lparr>is_initial_batch := False\<rparr> \<or>
             (\<exists>g file. save_graph env g (final_graph_file s1) = Inr file \<and>
                s' = s1\<lparr>is_initial_batch := False, final_graph_file := file\<rparr>)))"
proof (cases "batch_subgraph env s")
  case (Inl x)
  with assms show ?thesis by (simp add: process_transactions_def)
next
  case (Inr y)
  obtain ts sub s1 where y: "y = ((ts, sub), s1)" by (cases y) auto
  show ?thesis
  proof (cases "score_communities env sub s1")
    case (Inl x)
    with assms Inr y have "x = (e, s')" by (simp add: process_transactions_def)
    with Inl have "s' = s1" by (auto dest: score_communities_Inl)
    with Inr y show ?thesis by simp
  next
    case sc: (Inr z)
    obtain a s2 where z: "z = (a, s2)" by (cases z) auto
    from sc z have s2: "s2 = s1" by (auto dest: score_communities_Inr)
    show ?thesis
    proof (cases "initial_final_graph env s2")
      case (Inl x)
      with assms Inr y sc z have "x = (e, s')" by (simp add: process_transactions_def)
      with Inl s2 have "s' = s1" by (auto dest: initial_final_graph_Inl)
      with Inr y show ?thesis by simp
    next
      case ifg: (Inr w)
      obtain fg s3 where w: "w = (fg, s3)" by (cases w) auto
      from ifg w s2 have s3: "s3 = s1\<lparr>is_initial_batch := False\<rparr>"
        by (auto dest: initial_final_graph_Inr)
      from assms Inr y sc z ifg w have "persist env ts a fg s3 = Inl (e, s')"
        by (simp add: process_transactions_def)
      from persist_Inl [OF this] s3 Inr y show ?thesis by auto
    qed
  qed
qed

lemma process_transactions_Inr_cases:
  assumes "process_transactions env s = Inr (fs, s')"
  shows "\<exists>ts sub s1 g file. batch_subgraph env s = Inr ((ts, sub), s1) \<and>
           save_graph env g (final_graph_file s1) = Inr file \<and>
           s' = s1\<lparr>is_initial_batch := False, final_graph_file := file,
                   transfers_table := mark_processed ts (transfers_table s1),
                   global_added_edges := []\<rparr>"
proof (cases "batch_subgraph env s")
  case (Inl x)
  with assms show ?thesis by (simp add: process_transactions_def)
next
  case (Inr y)
  obtain ts sub s1 where y: "y = ((ts, sub), s1)" by (cases y) auto
  show ?thesis
  proof (cases "score_communities env sub s1")
    case (Inl x)
    with assms Inr y show ?thesis by (simp add: process_transactions_def)
  next
    case sc: (Inr z)
    obtain a s2 where z: "z = (a, s2)" by (cases z) auto
    from sc z have s2: "s2 = s1" by (auto dest: score_communities_Inr)
    show ?thesis
    proof (cases "initial_final_graph env s2")
      case (Inl x)
      with assms Inr y sc z show ?thesis by (simp add: process_transactions_def)
    next
      case ifg: (Inr w)
      obtain fg s3 where w: "w = (fg, s3)" by (cases w) auto
      from ifg w s2 have s3: "s3 = s1\<lparr>is_initial_batch := False\<rparr>"
        by (auto dest: initial_final_graph_Inr)
      from assms Inr y sc z ifg w have "persist env ts a fg s3 = Inr (fs, s')"
        by (simp add: process_transactions_def)
      from persist_Inr [OF this] s3 Inr y show ?thesis by auto
    qed
  qed
qed

lemma process_transactions_Inl:
  assumes "process_transactions env s = Inl (e, s')"
  shows "G2 s' = G2 s \<and> transaction_counter s' = transaction_counter s \<and>
         transfers_table s' = transfers_table s \<and>
         (final_graph_file s' = final_graph_file s \<or>
          (\<exists>g. save_graph env g (final_graph_file s) = Inr (final_graph_file s')))"
  using process_transactions_Inl_cases [OF assms]
  by (auto dest!: batch_subgraph_Inl batch_subgraph_Inr)

lemma process_transactions_Inr:
  assumes "process_transactions env s = Inr (fs, s')"
  shows "G2 s' = G2 s \<and> transaction_counter s' = transaction_counter s \<and>
         transfers_table s' = mark_processed (unprocessed (transfers_table s)) (transfers_table s) \<and>
         global_added_edges s' = [] \<and> \<not> is_initial_batch s'"
  using process_transactions_Inr_cases [OF assms]
  by (auto dest!: batch_subgraph_Inr)


lemma shed_oldest_Transfers_Inr:
  "shed_oldest_Transfers env s = Inr s' \<Longrightarrow>
     s' = s\<lparr>transfers_table :=
              filter (\<lambda>t. \<not> (processed t \<and> expired env (transfers_table s) t)) (transfers_table s)\<rparr>"
  by (auto simp: shed_oldest_Transfers_def split: option.splits)

lemma flush_Inl:
  assumes "flush env s = Inl (e, s')"
  shows "N env \<le> transaction_counter s \<and>
         (process_transactions env s = Inl (e, s') \<or>
          (\<exists>fs s1. process_transactions env s = Inr (fs, s1) \<and>
             (shed_oldest_Transfers env s1 = Inl e \<and> s' = s1 \<or>
              (\<exists>s2. shed_oldest_Transfers env s1 = Inr s2 \<and>
                 shed_contract_fault env = Some e \<and> s' = s2))))"
  using assms
  by (auto simp: flush_def split: if_splits sum.splits option.splits)

lemma flush_Inr:
  assumes "flush env s = Inr (fs, s')"
  shows "(transaction_counter s < N env \<and> fs = [] \<and> s' = s) \<or>
         (N env \<le> transaction_counter s \<and>
          (\<exists>s1 s2. process_transactions env s = Inr (fs, s1) \<and>
             shed_oldest_Transfers env s1 = Inr s2 \<and> shed_contract_fault env = None \<and>
             s' = s2\<lparr>transaction_counter := 0\<rparr>))"
  using assms
  by (auto simp: flush_def split: if_splits sum.splits option.splits)

lemma handle_admitted:
  "apply_initial_heuristics env ev = Inr True \<Longrightarrow>
     handle_transaction_async env ev s =
       flush env (update_transaction_counter (insert_row env ev s))"
  by (simp add: handle_transaction_async_def)

lemma insert_row_fields:
  "transaction_counter (insert_row env ev s) = transaction_counter s \<and>
   G2 (insert_row env ev s) = G2 s \<and>
   global_added_edges (insert_row env ev s) = global_added_edges s \<and>
   is_initial_batch (insert_row env ev s) = is_initial_batch s \<and>
   final_graph_file (insert_row env ev s) = final_graph_file s"
  by (auto simp: insert_row_def split: sum.splits option.splits)



section \<open>The serialisation loops\<close>

lemma convert_value_Inr:
  assumes "convert_value env v = Inr v'"
  shows "(is_type_or_list v \<longrightarrow> is_scalar v') \<and> (\<not> is_type_or_list v \<longrightarrow> v' = v)"
  using assms by (cases v) (auto simp: convert_value_def split: sum.splits)

















section \<open>The start of the final merge\<close>







section \<open>The carried edges in every reachable state\<close>











section \<open>The columns that the migration alters\<close>

lemma set_column_type_keys: "map fst (set_column_type k ty au sch) = map fst sch"
  by (induction sch) auto

lemma set_column_type_other: "k' \<noteq> k \<Longrightarrow> map_of (set_column_type k ty au sch) k' = map_of sch k'"
  by (induction sch) auto

lemma set_column_type_same:
  "map_of sch k = Some c \<Longrightarrow>
     map_of (set_column_type k ty au sch) k = Some (c\<lparr>col_type := ty, autoincrement := au\<rparr>)"
  by (induction sch) auto

lemma alter_column_Inr:
  assumes "alter_column t c ex ty nl au sch = Inr sch'"
  shows "map fst sch' = map fst sch \<and>
         (\<forall>k. k \<noteq> (t, c) \<longrightarrow> map_of sch' k = map_of sch k) \<and>
         map_option col_type (map_of sch' (t, c)) = Some ty \<and>
         map_option nullable (map_of sch' (t, c)) = map_option nullable (map_of sch (t, c))"
  using assms
  by (auto simp: alter_column_def set_column_type_keys set_column_type_other
        set_column_type_same split: option.splits)


section \<open>The graph builder and the partitioner\<close>















section \<open>The example runs\<close>

lemmas pipeline_defs =
  process_transactions_def batch_subgraph_def score_communities_def initial_final_graph_def
  persist_def serialize_attributes_def convert_value_def or_empty_list_def
  add_transactions_to_graph_def add_transfer_def add_node_def touched_edges_def
  edge_subgraph_def unprocessed_def mark_processed_def nx_Graph_def Let_def

lemmas handler_defs =
  handle_transaction_async_def flush_def insert_row_def add_transaction_to_db_def
  update_transaction_counter_def shed_oldest_Transfers_def

lemmas example_defs =
  example_env_def example_event_def idle_state_def ready_state_def example_final_graph_def
  built_graph_def example_findings_def failed_state_def processed_state_def flushed_state_def

lemma first_event_ready:
  "update_transaction_counter (insert_row example_env example_event idle_state) = ready_state"
  by (simp add: handler_defs example_defs)

lemma run_findings_fail:
  "process_transactions env_findings_fail ready_state =
     Inl (Exception ''OperationalError'', failed_state)"
  by (simp add: pipeline_defs env_findings_fail_def example_defs)


lemma run_ok:
  "process_transactions example_env ready_state = Inr (example_findings, processed_state)"
  by (simp add: pipeline_defs example_defs)

lemma handle_ok:
  "handle_transaction_async example_env example_event idle_state =
     Inr (example_findings, flushed_state)"
  by (simp add: pipeline_defs handler_defs example_defs)



lemma handle_insert_fail:
  "handle_transaction_async env_insert_fail example_event idle_state =
     Inr ([], idle_state\<lparr>transaction_counter := 1\<rparr>)"
  by (simp add: handler_defs env_insert_fail_def example_defs)


lemma upgrade_example: "upgrade example_schema = Inr migrated_schema"
  by (simp add: upgrade_def alter_column_def example_schema_def migrated_schema_def)





section \<open>The properties of the specification\<close>




text \<open>
  C2, as amended. No batch changes the durable community graph: the call of the community
  merger is commented out, so \<^verbatim>\<open>globals.G2\<close> is the same after every call of the handler
  and of the pipeline, returning or raising. Its communities are therefore never deleted or
  split, and the communities of the batch are not folded into it; the scoring runs on the
  partitioned subgraph of the batch.
\<close>

theorem community_graph_untouched:
  "(handle_transaction_async env ev s = Inl (e, s') \<longrightarrow> G2 s' = G2 s) \<and>
   (handle_transaction_async env ev s = Inr (fs, s') \<longrightarrow> G2 s' = G2 s) \<and>
   (process_transactions env s = Inl (e, s') \<longrightarrow> G2 s' = G2 s) \<and>
   (process_transactions env s = Inr (fs, s') \<longrightarrow> G2 s' = G2 s)"
proof -
  have p: "G2 b = G2 a" if "process_transactions env a = Inl (x, b)" for a b x
    using process_transactions_Inl [OF that] by simp
  have q: "G2 b = G2 a" if "process_transactions env a = Inr (x, b)" for a b x
    using process_transactions_Inr [OF that] by simp
  have fl: "G2 b = G2 a" if "flush env a = Inl (x, b)" for a b x
    using flush_Inl [OF that] by (auto dest!: p q shed_oldest_Transfers_Inr)
  have fr: "G2 b = G2 a" if "flush env a = Inr (x, b)" for a b x
    using flush_Inr [OF that] by (auto dest!: q shed_oldest_Transfers_Inr)
  have g0: "G2 (update_transaction_counter (insert_row env ev s)) = G2 s"
    by (simp add: update_transaction_counter_def insert_row_fields)
  have hl: "G2 s' = G2 s" if "handle_transaction_async env ev s = Inl (e, s')"
    using that g0
    by (auto simp: handle_transaction_async_def split: sum.splits if_splits dest!: fl)
  have hr: "G2 s' = G2 s" if "handle_transaction_async env ev s = Inr (fs, s')"
    using that g0
    by (auto simp: handle_transaction_async_def split: sum.splits if_splits dest!: fr)
  from p q hl hr show ?thesis by blast
qed

theorem community_graph_untouched_witness:
  "handle_transaction_async example_env example_event idle_state =
     Inr (example_findings, flushed_state) \<and>
   G2 flushed_state = G2 idle_state \<and>
   process_transactions env_findings_fail ready_state =
     Inl (Exception ''OperationalError'', failed_state) \<and>
   G2 failed_state = G2 ready_state"
  using community_graph_untouched
          [of example_env example_event idle_state "Exception ''OperationalError''"
              flushed_state example_findings]
        community_graph_untouched
          [of env_findings_fail example_event ready_state "Exception ''OperationalError''"
              failed_state example_findings]
        handle_ok run_findings_fail
  by simp

text \<open>
  C2 as stated fails: the example batch has the community of A and B, which the merge of
  section 4.5 would add to the empty community graph; after the flush the community graph
  is still empty.
\<close>

theorem merge_skipped_counterexample:
  "snd (fst (projr (batch_subgraph example_env ready_state))) = built_graph \<and>
   run_algorithm example_env built_graph = Inr [(''A'', 0), (''B'', 0)] \<and>
   process_partitions example_env [(''A'', 0), (''B'', 0)] built_graph = Inr example_communities \<and>
   process_transactions example_env ready_state = Inr (example_findings, processed_state) \<and>
   merge_new_communities example_communities (G2 ready_state) = example_communities \<and>
   G2 processed_state = [] \<and>
   G2 processed_state \<noteq> merge_new_communities example_communities (G2 ready_state)"
  using run_ok
  by (simp add: pipeline_defs example_defs example_communities_def merge_new_communities_def)






text \<open>
  C5. When adding the row of an admitted event or committing it raises, the exception is
  caught at the insert: the table is as before, and the handler goes on with the counter
  and, at the threshold, with the flush. Below the threshold it returns the empty list.
\<close>

theorem insert_failure_contained:
  assumes "apply_initial_heuristics env ev = Inr True"
    and "add_transaction_to_db env ev (transfers_table s) = Inl e \<or>
         (\<exists>tbl e'. add_transaction_to_db env ev (transfers_table s) = Inr tbl \<and>
                    commit_fault env tbl = Some e')"
  shows "insert_row env ev s = s \<and>
         handle_transaction_async env ev s = flush env (update_transaction_counter s) \<and>
         (transaction_counter s + 1 < N env \<longrightarrow>
            handle_transaction_async env ev s = Inr ([], update_transaction_counter s))"
proof -
  from assms(2) have "insert_row env ev s = s"
    by (auto simp: insert_row_def)
  with assms(1) show ?thesis
    by (simp add: handle_admitted flush_def update_transaction_counter_def)
qed

theorem insert_failure_contained_witness:
  "apply_initial_heuristics env_insert_fail example_event = Inr True \<and>
   add_transaction_to_db env_insert_fail example_event (transfers_table idle_state) =
     Inl (Exception ''IntegrityError'') \<and>
   transaction_counter idle_state + 1 < N env_insert_fail \<and>
   insert_row env_insert_fail example_event idle_state = idle_state \<and>
   handle_transaction_async env_insert_fail example_event idle_state =
     Inr ([], update_transaction_counter idle_state)"
proof -
  have a: "apply_initial_heuristics env_insert_fail example_event = Inr True"
    by (simp add: env_insert_fail_def example_defs)
  have b: "add_transaction_to_db env_insert_fail example_event (transfers_table idle_state) =
             Inl (Exception ''IntegrityError'')"
    by (simp add: add_transaction_to_db_def env_insert_fail_def example_defs)
  have n: "transaction_counter idle_state + 1 < N env_insert_fail"
    by (simp add: env_insert_fail_def example_defs)
  from insert_failure_contained [OF a disjI1 [OF b]] n
  have r: "insert_row env_insert_fail example_event idle_state = idle_state"
    and h: "handle_transaction_async env_insert_fail example_event idle_state =
              Inr ([], update_transaction_counter idle_state)"
    by blast+
  from a b n r h show ?thesis by blast
qed









text \<open>
  C9, as amended. The migration changes the type of the \<^verbatim>\<open>id\<close> column of \<^verbatim>\<open>eoas\<close>
  and of \<^verbatim>\<open>suspicious_clusters\<close> to Integer and nothing else: the schema keeps its
  columns, and every other column, a column that refers to cluster identifiers included,
  is as before. The migration has no step that updates a cross-reference.
\<close>

theorem upgrade_changes_only_ids:
  assumes "upgrade sch = Inr sch'"
  shows "map fst sch' = map fst sch \<and>
         (\<forall>k. k \<noteq> (''eoas'', ''id'') \<and> k \<noteq> (''suspicious_clusters'', ''id'') \<longrightarrow>
              map_of sch' k = map_of sch k) \<and>
         map_option col_type (map_of sch' (''eoas'', ''id'')) = Some Integer \<and>
         map_option col_type (map_of sch' (''suspicious_clusters'', ''id'')) = Some Integer"
proof -
  from assms obtain sch1 where
    a: "alter_column ''eoas'' ''id'' (VARCHAR 36) Integer False True sch = Inr sch1" and
    b: "alter_column ''suspicious_clusters'' ''id'' (VARCHAR 36) Integer False True sch1 = Inr sch'"
    by (auto simp: upgrade_def split: sum.splits)
  from alter_column_Inr [OF a] alter_column_Inr [OF b] show ?thesis
    by auto
qed

theorem upgrade_changes_only_ids_witness:
  "upgrade example_schema = Inr migrated_schema \<and>
   map fst migrated_schema = map fst example_schema \<and>
   map_of migrated_schema (''eoas'', ''cluster_id'') =
     map_of example_schema (''eoas'', ''cluster_id'') \<and>
   map_option col_type (map_of migrated_schema (''eoas'', ''id'')) = Some Integer"
  using upgrade_changes_only_ids [OF upgrade_example] upgrade_example
  by simp

text \<open>
  C9 as stated fails: on a schema whose EOA rows refer to clusters by a column of the
  type of the old identifiers, the migration makes the identifiers integers and leaves the
  referring column a string of 36 characters.
\<close>

theorem stale_reference_counterexample:
  "upgrade example_schema = Inr migrated_schema \<and>
   map_option col_type (map_of example_schema (''eoas'', ''cluster_id'')) = Some (VARCHAR 36) \<and>
   map_option col_type (map_of migrated_schema (''eoas'', ''cluster_id'')) = Some (VARCHAR 36) \<and>
   map_option col_type (map_of migrated_schema (''suspicious_clusters'', ''id'')) = Some Integer"
  using upgrade_example by (simp add: example_schema_def migrated_schema_def)

text \<open>
  C10. The counter is incremented for every admitted event, whether its row was stored or
  not: an event whose insert raised counts toward the threshold like any other, and the
  flush is decided on the incremented counter. Below the threshold the handler returns
  with the counter one higher; when the insert raised the table is as before, so a counter
  that was not below the number of stored rows is now above it.
\<close>

theorem counter_counts_dropped_events:
  assumes "apply_initial_heuristics env ev = Inr True"
  shows "transaction_counter (update_transaction_counter (insert_row env ev s)) =
           transaction_counter s + 1 \<and>
         handle_transaction_async env ev s =
           flush env (update_transaction_counter (insert_row env ev s)) \<and>
         (insert_fault env ev (transfers_table s) \<noteq> None \<longrightarrow>
            transfers_table (update_transaction_counter (insert_row env ev s)) = transfers_table s) \<and>
         (transaction_counter s + 1 < N env \<longrightarrow>
            (\<exists>s'. handle_transaction_async env ev s = Inr ([], s') \<and>
               transaction_counter s' = transaction_counter s + 1 \<and>
               (insert_fault env ev (transfers_table s) \<noteq> None \<longrightarrow>
                  int (length (transfers_table s)) \<le> transaction_counter s \<longrightarrow>
                  int (length (transfers_table s')) < transaction_counter s')))"
proof -
  let ?s0 = "update_transaction_counter (insert_row env ev s)"
  have c0: "transaction_counter ?s0 = transaction_counter s + 1"
    by (simp add: update_transaction_counter_def insert_row_fields)
  have h: "handle_transaction_async env ev s = flush env ?s0"
    using assms by (rule handle_admitted)
  have t: "transfers_table ?s0 = transfers_table s"
    if "insert_fault env ev (transfers_table s) \<noteq> None"
    using that
    by (auto simp: update_transaction_counter_def insert_row_def add_transaction_to_db_def)
  have f: "flush env ?s0 = Inr ([], ?s0)" if "transaction_counter s + 1 < N env"
    using that c0 by (simp add: flush_def)
  show ?thesis
    using c0 h t f by auto
qed

theorem counter_counts_dropped_events_witness:
  "apply_initial_heuristics env_insert_fail example_event = Inr True \<and>
   insert_fault env_insert_fail example_event (transfers_table idle_state) \<noteq> None \<and>
   transaction_counter idle_state + 1 < N env_insert_fail \<and>
   int (length (transfers_table idle_state)) \<le> transaction_counter idle_state \<and>
   handle_transaction_async env_insert_fail example_event idle_state =
     Inr ([], idle_state\<lparr>transaction_counter := 1\<rparr>) \<and>
   int (length (transfers_table (idle_state\<lparr>transaction_counter := 1\<rparr>))) <
     transaction_counter (idle_state\<lparr>transaction_counter := 1\<rparr>)"
proof -
  have a: "apply_initial_heuristics env_insert_fail example_event = Inr True"
    by (simp add: env_insert_fail_def example_defs)
  have b: "insert_fault env_insert_fail example_event (transfers_table idle_state) \<noteq> None"
    by (simp add: env_insert_fail_def example_defs)
  have n: "transaction_counter idle_state + 1 < N env_insert_fail"
    by (simp add: env_insert_fail_def example_defs)
  have l: "int (length (transfers_table idle_state)) \<le> transaction_counter idle_state"
    by (simp add: example_defs)
  from counter_counts_dropped_events [OF a, of idle_state] a b n l handle_insert_fail
  show ?thesis by simp
qed

end
